theory Spec2Isabelle
  imports Main
begin

section \<open>Data model\<close>

text \<open>
  The operator is Python. Its three modules under verification are
  \<^verbatim>\<open>mongoOperator/services/KubernetesService.py\<close>,
  \<^verbatim>\<open>mongoOperator/managers/EventManager.py\<close> and
  \<^verbatim>\<open>mongoOperator/helpers/RestoreHelper.py\<close>. Every method becomes a function
  from the world before the call to a result and the world after it; a raised
  exception is the \<open>Inl\<close> branch of the result.
\<close>

subsection \<open>The cluster object\<close>

text \<open>
  \<^verbatim>\<open>V1MongoClusterConfiguration\<close> is not among the sources; the fields are the ones
  the three modules read. \<open>restore_from\<close> is the only attribute the code tests with
  \<^verbatim>\<open>hasattr\<close>: \<open>None\<close> is "no such attribute", \<open>Some None\<close> is the attribute holding
  Python's \<^verbatim>\<open>None\<close>. \<open>prefix\<close> and \<open>restore_bucket\<close> are optional strings.
\<close>

record secret_key_ref =
  ref_name :: string
  ref_key :: string

record gcs_conf =
  bucket :: string
  prefix :: "string option"
  restore_bucket :: "string option"
  restore_from :: "string option option"
  service_account_secret_key_ref :: secret_key_ref

record cluster_object =
  metadata_name :: string
  metadata_namespace :: string
  spec_mongodb_replicas :: int
  spec_backups_gcs :: gcs_conf

subsection \<open>Python values, exceptions\<close>

datatype pyval = PNone | PStr string | PInt int | PBytes string | PObj cluster_object

text \<open>The text \<^verbatim>\<open>template.format(args)\<close>, kept as the template and its arguments.\<close>

datatype fmt = Fmt string "pyval list"

text \<open>
  \<open>CalledProcessError returncode stderr stdout\<close> carries the three attributes
  \<^verbatim>\<open>restore\<close> reads. \<open>OtherError\<close> stands for every exception class the code never
  names (transport errors of the API client, storage errors, decoding errors).
\<close>

datatype exn =
    ApiException int
  | TypeError string
  | KeyError string
  | FileNotFoundError string
  | CalledProcessError int pyval pyval
  | SubprocessError fmt
  | OtherError string

subsection \<open>Resources of the platform and of the backup store\<close>

record v1_secret =
  secret_name :: string
  string_data :: "(string \<times> string) list"
  data :: "(string \<times> string) list"

text \<open>The body built by \<^verbatim>\<open>KubernetesResources.createService\<close>, as its manifest text.\<close>

type_synonym manifest = string

type_synonym credentials = "(string \<times> string) list"

record blob =
  blob_name :: string
  time_created :: int

record event =
  ev_type :: "string option"
  ev_object :: "cluster_object option"

subsection \<open>Calls that leave the process\<close>

datatype call =
    CreateNamespacedSecret string v1_secret
  | ReadNamespacedSecret string string
  | DeleteNamespacedSecret string string
  | CreateNamespacedService string manifest
  | PatchNamespacedService string string manifest
  | DeleteNamespacedService string string
  | CreateNamespacedStatefulSet string manifest
  | PatchNamespacedStatefulSet string string manifest
  | DeleteNamespacedStatefulSet string string
  | ListBlobs credentials string string
  | DownloadToFilename credentials string string string
  | CheckOutput "string list"
  | OsRemove string

datatype level = DEBUG | INFO | WARNING | ERROR | STDOUT | STDERR

datatype logarg = LVal pyval | LEvent event | LExn exn | LCreds credentials

type_synonym log_entry = "level \<times> string \<times> logarg list"

subsection \<open>The world\<close>

text \<open>
  What running an executable does: it exits with a return code, having written to
  its standard output and to its standard error, or it cannot be started.
\<close>

datatype process_outcome = Exited int string string | NotStarted string

text \<open>
  \<open>trace\<close> lists the external calls made so far, oldest first. \<open>failure w n c\<close> is the
  exception with which the platform, the backup store or the file system answers
  call \<open>c\<close> when it is call number \<open>n\<close> (\<open>None\<close>: it answers normally); any exception
  at any moment is possible. The platform keeps secrets by (namespace, name).
  \<open>bucket_listing\<close> is what listing a bucket under a prefix yields, \<open>files\<close> the local
  files, \<open>process\<close> the outcome of running an executable with given arguments,
  \<open>passwords\<close> the sequence of generated passwords of which \<open>drawn\<close> have been used,
  \<open>logged\<close> the lines written by the logging module, by \<^verbatim>\<open>print\<close> and on standard
  error.
\<close>

record world =
  trace :: "call list"
  failure :: "nat \<Rightarrow> call \<Rightarrow> exn option"
  secrets :: "string \<times> string \<Rightarrow> v1_secret option"
  bucket_listing :: "string \<Rightarrow> string \<Rightarrow> blob list"
  files :: "string set"
  process :: "string list \<Rightarrow> process_outcome"
  passwords :: "nat \<Rightarrow> string"
  drawn :: nat
  logged :: "log_entry list"

text \<open>
  Helpers of the repository and of Python that are not among the sources, taken as
  parameters: the service body constructor, the member host name, the two decoders
  of \<^verbatim>\<open>_getCredentials\<close>, and \<^verbatim>\<open>str()\<close> of a value that is neither a string nor
  \<^verbatim>\<open>None\<close>.
\<close>

record lib =
  KubernetesResources_createService :: "cluster_object \<Rightarrow> manifest"
  MongoResources_getMemberHostname :: "int \<Rightarrow> string \<Rightarrow> string \<Rightarrow> string"
  b64decode :: "string \<Rightarrow> exn + string"
  json_loads :: "string \<Rightarrow> exn + credentials"
  str_of :: "pyval \<Rightarrow> string"

type_synonym 'a io = "world \<Rightarrow> (exn + 'a) \<times> world"

definition ret :: "'a \<Rightarrow> 'a io" where
  "ret x w = (Inr x, w)"

definition raise :: "exn \<Rightarrow> 'a io" where
  "raise e w = (Inl e, w)"

text \<open>Sequencing: an exception of the first statement skips the rest.\<close>

definition seq :: "'a io \<Rightarrow> ('a \<Rightarrow> 'b io) \<Rightarrow> 'b io" where
  "seq m k w = (case m w of (Inl e, w') \<Rightarrow> (Inl e, w') | (Inr x, w') \<Rightarrow> k x w')"

text \<open>\<^verbatim>\<open>try: m except: h\<close>; the handler re-raises what its clause does not match.\<close>

definition try_except :: "'a io \<Rightarrow> (exn \<Rightarrow> 'a io) \<Rightarrow> 'a io" where
  "try_except m h w = (case m w of (Inl e, w') \<Rightarrow> h e w' | (Inr x, w') \<Rightarrow> (Inr x, w'))"

definition emit :: "level \<Rightarrow> string \<Rightarrow> logarg list \<Rightarrow> unit io" where
  "emit lvl msg args w = (Inr (), w\<lparr>logged := logged w @ [(lvl, msg, args)]\<rparr>)"

text \<open>
  The number of conversion specifiers of a \<^verbatim>\<open>%\<close>-format string (\<^verbatim>\<open>%%\<close> is a literal
  percent sign; a lone \<^verbatim>\<open>%\<close> at the end is malformed). The templates of this program
  use \<^verbatim>\<open>%s\<close> only.
\<close>

fun percent_specs :: "string \<Rightarrow> nat option" where
  "percent_specs [] = Some 0"
| "percent_specs [c] = (if c = CHR ''%'' then None else Some 0)"
| "percent_specs (c # d # cs) =
     (if c = CHR ''%'' then
        (if d = CHR ''%'' then percent_specs cs else map_option Suc (percent_specs cs))
      else percent_specs (d # cs))"

text \<open>
  \<^verbatim>\<open>logging.info(msg, *args)\<close> and its siblings. The logging module renders the
  record as \<^verbatim>\<open>msg % args\<close> when there are arguments. When that fails (the arguments
  do not match the specifiers of \<open>msg\<close>) no record is written: the handler prints a
  "Logging error" report naming the message and the arguments on standard error, and
  the call returns normally all the same.
\<close>

definition logging :: "level \<Rightarrow> string \<Rightarrow> logarg list \<Rightarrow> unit io" where
  "logging lvl msg args =
     (if args = [] \<or> percent_specs msg = Some (length args) then emit lvl msg args
      else emit STDERR ''--- Logging error ---'' (LVal (PStr msg) # args))"

text \<open>
  \<^verbatim>\<open>logging.warning(template.format(args))\<close>: the message is built by the caller and
  passed alone, so the record is always written; it is kept as the template and the
  arguments of \<^verbatim>\<open>format\<close>.
\<close>

definition logging_formatted :: "level \<Rightarrow> string \<Rightarrow> logarg list \<Rightarrow> unit io" where
  "logging_formatted lvl template args = emit lvl template args"

text \<open>\<^verbatim>\<open>print(args)\<close>: the values, on standard output.\<close>

definition py_print :: "logarg list \<Rightarrow> unit io" where
  "py_print args = emit STDOUT [] args"

text \<open>An external call: recorded, then answered by the collaborator.\<close>

definition perform :: "call \<Rightarrow> unit io" where
  "perform c w =
     (case failure w (length (trace w)) c of
        Some e \<Rightarrow> (Inl e, w\<lparr>trace := trace w @ [c]\<rparr>)
      | None \<Rightarrow> (Inr (), w\<lparr>trace := trace w @ [c]\<rparr>))"

definition quoted :: "string \<Rightarrow> string" where
  "quoted s = [CHR 0x27] @ s @ [CHR 0x27]"

definition py_str :: "lib \<Rightarrow> pyval \<Rightarrow> string" where
  "py_str L v = (case v of PStr s \<Rightarrow> s | PNone \<Rightarrow> ''None'' | _ \<Rightarrow> str_of L v)"

fun decimal :: "nat \<Rightarrow> string" where
  "decimal n =
     (if n < 10 then [char_of (48 + n)]
      else decimal (n div 10) @ [char_of (48 + n mod 10)])"

text \<open>
  Python binds the positional arguments of a call to the parameters of the method;
  a method of two parameters (besides \<^verbatim>\<open>self\<close>) called with another number of
  arguments raises \<^verbatim>\<open>TypeError\<close> before its body runs. The message is worded as
  Python before 3.10 words it; later versions put the class name before the method
  name.
\<close>

fun bind2 :: "string \<Rightarrow> string \<Rightarrow> string \<Rightarrow> pyval list \<Rightarrow> exn + pyval \<times> pyval" where
  "bind2 f p1 p2 [a, b] = Inr (a, b)"
| "bind2 f p1 p2 [a] =
     Inl (TypeError (f @ ''() missing 1 required positional argument: '' @ quoted p2))"
| "bind2 f p1 p2 [] =
     Inl (TypeError (f @ ''() missing 2 required positional arguments: ''
        @ quoted p1 @ '' and '' @ quoted p2))"
| "bind2 f p1 p2 (a # b # c # cs) =
     Inl (TypeError (f @ ''() takes 3 positional arguments but ''
        @ decimal (length cs + 4) @ '' were given''))"

section \<open>The platform's API client\<close>

text \<open>
  The client of the orchestration platform is a library. A request is recorded and
  may fail as the world says; otherwise creating a secret whose name is taken answers
  409, reading or deleting a missing secret answers 404, and requests on services and
  stateful sets are accepted.
\<close>

definition create_namespaced_secret :: "string \<Rightarrow> v1_secret \<Rightarrow> v1_secret io" where
  "create_namespaced_secret namespace body =
     seq (perform (CreateNamespacedSecret namespace body)) (\<lambda>_ w.
       case secrets w (namespace, secret_name body) of
         Some _ \<Rightarrow> (Inl (ApiException 409), w)
       | None \<Rightarrow>
           (Inr body, w\<lparr>secrets := (secrets w)((namespace, secret_name body) \<mapsto> body)\<rparr>))"

definition read_namespaced_secret :: "string \<Rightarrow> string \<Rightarrow> v1_secret io" where
  "read_namespaced_secret name namespace =
     seq (perform (ReadNamespacedSecret name namespace)) (\<lambda>_ w.
       case secrets w (namespace, name) of
         None \<Rightarrow> (Inl (ApiException 404), w)
       | Some s \<Rightarrow> (Inr s, w))"

definition delete_namespaced_secret :: "string \<Rightarrow> string \<Rightarrow> unit io" where
  "delete_namespaced_secret name namespace =
     seq (perform (DeleteNamespacedSecret name namespace)) (\<lambda>_ w.
       case secrets w (namespace, name) of
         None \<Rightarrow> (Inl (ApiException 404), w)
       | Some s \<Rightarrow> (Inr (), w\<lparr>secrets := (secrets w)((namespace, name) := None)\<rparr>))"

definition create_namespaced_service :: "string \<Rightarrow> manifest \<Rightarrow> manifest io" where
  "create_namespaced_service namespace body =
     seq (perform (CreateNamespacedService namespace body)) (\<lambda>_. ret body)"

definition patch_namespaced_service :: "string \<Rightarrow> string \<Rightarrow> manifest \<Rightarrow> manifest io" where
  "patch_namespaced_service name namespace body =
     seq (perform (PatchNamespacedService name namespace body)) (\<lambda>_. ret body)"

definition delete_namespaced_service :: "string \<Rightarrow> string \<Rightarrow> unit io" where
  "delete_namespaced_service name namespace =
     perform (DeleteNamespacedService name namespace)"

definition create_namespaced_stateful_set :: "string \<Rightarrow> manifest \<Rightarrow> manifest io" where
  "create_namespaced_stateful_set namespace body =
     seq (perform (CreateNamespacedStatefulSet namespace body)) (\<lambda>_. ret body)"

definition patch_namespaced_stateful_set :: "string \<Rightarrow> string \<Rightarrow> manifest \<Rightarrow> manifest io" where
  "patch_namespaced_stateful_set name namespace body =
     seq (perform (PatchNamespacedStatefulSet name namespace body)) (\<lambda>_. ret body)"

definition delete_namespaced_stateful_set :: "string \<Rightarrow> string \<Rightarrow> unit io" where
  "delete_namespaced_stateful_set name namespace =
     perform (DeleteNamespacedStatefulSet name namespace)"

section \<open>KubernetesService\<close>

definition OPERATOR_ADMIN_SECRET_FORMAT :: "string \<Rightarrow> string" where
  "OPERATOR_ADMIN_SECRET_FORMAT s = s @ ''-admin-credentials''"

text \<open>
  Modelled from the spec: \<^verbatim>\<open>KubernetesResources.createSecret\<close> is not among the
  sources. The spec calls the result "a secret with the deterministic name"; the body
  carries the given name and the given data.
\<close>

definition KubernetesResources_createSecret ::
    "string \<Rightarrow> string \<Rightarrow> (string \<times> string) list \<Rightarrow> v1_secret" where
  "KubernetesResources_createSecret secret_name' namespace secret_data =
     \<lparr>secret_name = secret_name', string_data = secret_data, data = []\<rparr>"

text \<open>
  Modelled from the spec: \<^verbatim>\<open>KubernetesResources.createRandomPassword\<close> is not among
  the sources. The spec calls the credential "generated"; the call takes the next
  password of the world's sequence.
\<close>

definition KubernetesResources_createRandomPassword :: "string io" where
  "KubernetesResources_createRandomPassword w =
     (Inr (passwords w (drawn w)), w\<lparr>drawn := Suc (drawn w)\<rparr>)"

definition getSecret :: "string \<Rightarrow> string \<Rightarrow> v1_secret io" where
  "getSecret secret_name' namespace = read_namespaced_secret secret_name' namespace"

definition createSecret :: "string \<Rightarrow> string \<Rightarrow> (string \<times> string) list \<Rightarrow> v1_secret io" where
  "createSecret secret_name' namespace secret_data =
     try_except
       (let secret_body = KubernetesResources_createSecret secret_name' namespace secret_data in
        seq (create_namespaced_secret namespace secret_body) (\<lambda>secret.
        seq (logging INFO ''Created secret %s in namespace %s''
               [LVal (PStr secret_name'), LVal (PStr namespace)]) (\<lambda>_.
        ret secret)))
       (\<lambda>error. case error of
          ApiException status \<Rightarrow>
            if status = 409 then
              seq (logging_formatted WARNING
                     ''Tried to create a secret that already existed: {} in namespace {}''
                     [LVal (PStr secret_name'), LVal (PStr namespace)]) (\<lambda>_.
              getSecret secret_name' namespace)
            else raise error
        | _ \<Rightarrow> raise error)"

definition createOperatorAdminSecret :: "cluster_object \<Rightarrow> v1_secret io" where
  "createOperatorAdminSecret cluster_object =
     seq KubernetesResources_createRandomPassword (\<lambda>password.
       let secret_data = [(''username'', ''root''), (''password'', password)] in
       createSecret (OPERATOR_ADMIN_SECRET_FORMAT (metadata_name cluster_object))
         (metadata_namespace cluster_object) secret_data)"

definition deleteSecret :: "lib \<Rightarrow> pyval list \<Rightarrow> unit io" where
  "deleteSecret L args =
     (case bind2 ''deleteSecret'' ''name'' ''namespace'' args of
        Inl e \<Rightarrow> raise e
      | Inr (name, namespace) \<Rightarrow>
          delete_namespaced_secret (py_str L name) (py_str L namespace))"

definition deleteOperatorAdminSecret :: "lib \<Rightarrow> pyval list \<Rightarrow> unit io" where
  "deleteOperatorAdminSecret L args =
     (case bind2 ''deleteOperatorAdminSecret'' ''cluster_name'' ''namespace'' args of
        Inl e \<Rightarrow> raise e
      | Inr (cluster_name, namespace) \<Rightarrow>
          deleteSecret L [PStr (OPERATOR_ADMIN_SECRET_FORMAT (py_str L cluster_name)), namespace])"

definition createService :: "lib \<Rightarrow> cluster_object \<Rightarrow> manifest io" where
  "createService L cluster_object =
     (let namespace = metadata_namespace cluster_object;
          body = KubernetesResources_createService L cluster_object
      in create_namespaced_service namespace body)"

definition updateService :: "lib \<Rightarrow> cluster_object \<Rightarrow> manifest io" where
  "updateService L cluster_object =
     (let name = metadata_name cluster_object;
          namespace = metadata_namespace cluster_object;
          body = KubernetesResources_createService L cluster_object
      in patch_namespaced_service name namespace body)"

definition deleteService :: "lib \<Rightarrow> pyval list \<Rightarrow> unit io" where
  "deleteService L args =
     (case bind2 ''deleteService'' ''name'' ''namespace'' args of
        Inl e \<Rightarrow> raise e
      | Inr (name, namespace) \<Rightarrow>
          delete_namespaced_service (py_str L name) (py_str L namespace))"

definition createStatefulSet :: "lib \<Rightarrow> cluster_object \<Rightarrow> manifest io" where
  "createStatefulSet L cluster_object =
     (let namespace = metadata_namespace cluster_object;
          body = KubernetesResources_createService L cluster_object
      in create_namespaced_stateful_set namespace body)"

definition updateStatefulSet :: "lib \<Rightarrow> cluster_object \<Rightarrow> manifest io" where
  "updateStatefulSet L cluster_object =
     (let name = metadata_name cluster_object;
          namespace = metadata_namespace cluster_object;
          body = KubernetesResources_createService L cluster_object
      in patch_namespaced_stateful_set name namespace body)"

definition deleteStatefulSet :: "lib \<Rightarrow> pyval list \<Rightarrow> unit io" where
  "deleteStatefulSet L args =
     (case bind2 ''deleteStatefulSet'' ''name'' ''namespace'' args of
        Inl e \<Rightarrow> raise e
      | Inr (name, namespace) \<Rightarrow>
          delete_namespaced_stateful_set (py_str L name) (py_str L namespace))"

section \<open>EventManager\<close>

definition EventTypes_members :: "string list" where
  "EventTypes_members = [''ADDED'', ''MODIFIED'', ''DELETED'']"

definition EventManager_add :: "lib \<Rightarrow> cluster_object \<Rightarrow> unit io" where
  "EventManager_add L cluster_object =
     seq (createOperatorAdminSecret cluster_object) (\<lambda>_.
     seq (createService L cluster_object) (\<lambda>_.
     seq (createStatefulSet L cluster_object) (\<lambda>_.
     ret ())))"

definition EventManager_update :: "lib \<Rightarrow> cluster_object \<Rightarrow> unit io" where
  "EventManager_update L cluster_object =
     seq (updateService L cluster_object) (\<lambda>_.
     seq (updateStatefulSet L cluster_object) (\<lambda>_.
     ret ()))"

definition EventManager_delete :: "lib \<Rightarrow> cluster_object \<Rightarrow> unit io" where
  "EventManager_delete L cluster_object =
     seq (deleteStatefulSet L [PObj cluster_object]) (\<lambda>_.
     seq (deleteService L [PObj cluster_object]) (\<lambda>_.
     seq (deleteOperatorAdminSecret L [PObj cluster_object]) (\<lambda>_.
     ret ())))"

definition event_type_to_action_map ::
    "lib \<Rightarrow> (string \<times> (cluster_object \<Rightarrow> unit io)) list" where
  "event_type_to_action_map L =
     [(''ADDED'', EventManager_add L),
      (''MODIFIED'', EventManager_update L),
      (''DELETED'', EventManager_delete L)]"

definition processEvent :: "lib \<Rightarrow> event \<Rightarrow> unit io" where
  "processEvent L event =
     (case (ev_type event, ev_object event) of
        (Some type, Some object) \<Rightarrow>
          if type \<notin> set EventTypes_members then
            logging_formatted WARNING ''Received unknown event type: {}''
              [LVal (PStr type)]
          else
            (case map_of (event_type_to_action_map L) type of
               None \<Rightarrow> raise (KeyError type)
             | Some action \<Rightarrow>
                 try_except (action object)
                   (\<lambda>error. case error of
                      ApiException status \<Rightarrow>
                        logging ERROR ''API error with {} object {}: {}''
                          [LVal (PStr type), LVal (PObj object), LExn error]
                    | _ \<Rightarrow> raise error))
      | _ \<Rightarrow> logging_formatted WARNING ''Received malformed event: {}'' [LEvent event])"

section \<open>The backup store, the file system and the restore executable\<close>

text \<open>
  \<open>storage_list_blobs\<close> stands for the four library calls of \<^verbatim>\<open>_lastBackupFile\<close>
  (\<^verbatim>\<open>from_service_account_info\<close>, \<^verbatim>\<open>StorageClient\<close>, \<^verbatim>\<open>get_bucket\<close>,
  \<^verbatim>\<open>list_blobs\<close>) and \<open>download_to_filename\<close> for the four of \<^verbatim>\<open>_downloadFile\<close>;
  each is one external call that the world may fail.
\<close>

definition storage_list_blobs :: "credentials \<Rightarrow> string \<Rightarrow> string \<Rightarrow> blob list io" where
  "storage_list_blobs credentials bucket_name key =
     seq (perform (ListBlobs credentials bucket_name key)) (\<lambda>_ w.
       (Inr (bucket_listing w bucket_name key), w))"

definition download_to_filename ::
    "credentials \<Rightarrow> string \<Rightarrow> string \<Rightarrow> string \<Rightarrow> unit io" where
  "download_to_filename credentials bucket_name key file_name =
     seq (perform (DownloadToFilename credentials bucket_name key file_name)) (\<lambda>_ w.
       (Inr (), w\<lparr>files := insert file_name (files w)\<rparr>))"

text \<open>
  \<^verbatim>\<open>subprocess.check_output(argv)\<close>, called as \<^verbatim>\<open>restore\<close> calls it, with no
  \<^verbatim>\<open>stderr\<close> argument: only the standard output of the executable is captured. On
  exit code zero it is returned. On another exit code \<^verbatim>\<open>CalledProcessError\<close> is
  raised with the return code and the captured standard output; its \<^verbatim>\<open>stderr\<close>
  attribute is \<^verbatim>\<open>None\<close>, whatever the executable wrote on its standard error.
\<close>

definition check_output :: "string list \<Rightarrow> pyval io" where
  "check_output argv w =
     (let w' = w\<lparr>trace := trace w @ [CheckOutput argv]\<rparr> in
      case process w argv of
        NotStarted path \<Rightarrow> (Inl (FileNotFoundError path), w')
      | Exited returncode stdout stderr \<Rightarrow>
          if returncode = 0 then (Inr (PBytes stdout), w')
          else (Inl (CalledProcessError returncode PNone (PBytes stdout)), w'))"

definition os_remove :: "string \<Rightarrow> unit io" where
  "os_remove path =
     seq (perform (OsRemove path)) (\<lambda>_ w.
       if path \<in> files w then (Inr (), w\<lparr>files := files w - {path}\<rparr>)
       else (Inl (FileNotFoundError path), w))"

section \<open>RestoreHelper\<close>

definition DEFAULT_BACKUP_PREFIX :: string where
  "DEFAULT_BACKUP_PREFIX = ''backups''"

text \<open>\<^verbatim>\<open>x or y\<close> on an optional string: \<^verbatim>\<open>None\<close> and the empty string are false.\<close>

definition py_or :: "string option \<Rightarrow> string \<Rightarrow> string" where
  "py_or x y = (case x of None \<Rightarrow> y | Some s \<Rightarrow> if s = [] then y else s)"

definition opt_str :: "string option \<Rightarrow> pyval" where
  "opt_str x = (case x of None \<Rightarrow> PNone | Some s \<Rightarrow> PStr s)"

definition getCredentials :: "lib \<Rightarrow> cluster_object \<Rightarrow> credentials io" where
  "getCredentials L cluster_object =
     (let secret_key = service_account_secret_key_ref (spec_backups_gcs cluster_object) in
      seq (getSecret (ref_name secret_key) (metadata_namespace cluster_object)) (\<lambda>secret.
        case map_of (data secret) (ref_key secret_key) of
          None \<Rightarrow> raise (KeyError (ref_key secret_key))
        | Some credentials_encoded \<Rightarrow>
            (case b64decode L credentials_encoded of
               Inl e \<Rightarrow> raise e
             | Inr credentials_json \<Rightarrow>
                 (case json_loads L credentials_json of
                    Inl e \<Rightarrow> raise e
                  | Inr credentials \<Rightarrow> ret credentials))))"

definition found_backup_file :: string where
  "found_backup_file = ''Found backup file '' @ quoted ''%s'' @ '' in bucket '' @ quoted ''%s''"

text \<open>The loop of \<^verbatim>\<open>_lastBackupFile\<close> over the listed blobs, \<open>last_blob\<close> its variable.\<close>

fun lastBackupFile_loop :: "string \<Rightarrow> blob list \<Rightarrow> blob option \<Rightarrow> blob option io" where
  "lastBackupFile_loop bucket_name [] last_blob = ret last_blob"
| "lastBackupFile_loop bucket_name (blob # blobs) last_blob =
     seq (logging INFO found_backup_file
            [LVal (PStr (blob_name blob)), LVal (PStr bucket_name)]) (\<lambda>_.
       lastBackupFile_loop bucket_name blobs
         (if (case last_blob of None \<Rightarrow> True
              | Some l \<Rightarrow> time_created blob > time_created l)
          then Some blob else last_blob))"

definition lastBackupFile :: "credentials \<Rightarrow> string \<Rightarrow> string \<Rightarrow> string option io" where
  "lastBackupFile credentials bucket_name key =
     seq (storage_list_blobs credentials bucket_name key) (\<lambda>blobs.
     seq (lastBackupFile_loop bucket_name blobs None) (\<lambda>last_blob.
     ret (case last_blob of Some b \<Rightarrow> Some (blob_name b) | None \<Rightarrow> None)))"

definition getLastBackup :: "lib \<Rightarrow> cluster_object \<Rightarrow> string option io" where
  "getLastBackup L cluster_object =
     (let gcs = spec_backups_gcs cluster_object;
          prefix' = py_or (prefix gcs) DEFAULT_BACKUP_PREFIX;
          bucket_name = py_or (restore_bucket gcs) (bucket gcs)
      in seq (getCredentials L cluster_object) (\<lambda>credentials.
           lastBackupFile credentials bucket_name (prefix' @ ''/'')))"

definition downloadFile :: "credentials \<Rightarrow> string \<Rightarrow> string \<Rightarrow> string \<Rightarrow> string io" where
  "downloadFile credentials bucket_name key file_name =
     seq (download_to_filename credentials bucket_name key file_name) (\<lambda>_.
     seq (py_print [LCreds credentials]) (\<lambda>_.
     seq (py_print [LVal (PStr bucket_name)]) (\<lambda>_.
     seq (logging INFO ''Backup gcs://%s/%s downloaded to %s''
            [LVal (PStr bucket_name), LVal (PStr key), LVal (PStr file_name)]) (\<lambda>_.
     ret file_name))))"

text \<open>
  The arguments of the call to \<^verbatim>\<open>_downloadFile\<close> are evaluated in the order written:
  the credentials (a request to the platform), the bucket, the key, the file name.
  \<^verbatim>\<open>"/tmp/" + backup_file\<close> raises \<^verbatim>\<open>TypeError\<close> when \<open>backup_file\<close> is \<^verbatim>\<open>None\<close>.
\<close>

definition concat_None_error :: exn where
  "concat_None_error =
     TypeError (''can only concatenate str (not '' @ [CHR 0x22] @ ''NoneType''
       @ [CHR 0x22] @ '') to str'')"

definition downloadBackup :: "lib \<Rightarrow> cluster_object \<Rightarrow> string option \<Rightarrow> string io" where
  "downloadBackup L cluster_object backup_file =
     (let gcs = spec_backups_gcs cluster_object;
          prefix' = py_or (prefix gcs) DEFAULT_BACKUP_PREFIX
      in seq (getCredentials L cluster_object) (\<lambda>credentials.
           let bucket_name = py_or (restore_bucket gcs) (bucket gcs);
               key = prefix' @ ''/'' @ py_str L (opt_str backup_file)
           in case backup_file of
                None \<Rightarrow> raise concat_None_error
              | Some f \<Rightarrow> downloadFile credentials bucket_name key (''/tmp/'' @ f)))"

definition restore_error_template :: string where
  "restore_error_template =
     ''Could not restore '' @ quoted ''{}'' @ '' to '' @ quoted ''{}''
       @ ''. Return code: {}'' @ [CHR 0x0A] @ '' stderr: '' @ quoted ''{}''
       @ [CHR 0x0A] @ '' stdout: '' @ quoted ''{}''"

definition restore :: "lib \<Rightarrow> cluster_object \<Rightarrow> string option \<Rightarrow> unit io" where
  "restore L cluster_object backup_file =
     (let pod_index = spec_mongodb_replicas cluster_object - 1;
          hostname = MongoResources_getMemberHostname L pod_index
                       (metadata_name cluster_object) (metadata_namespace cluster_object)
      in
      seq (logging INFO ''Restoring backup file %s to cluster %s @ ns/%s on %s.''
             [LVal (opt_str backup_file), LVal (PStr (metadata_name cluster_object)),
              LVal (PStr (metadata_namespace cluster_object)), LVal (PStr hostname)]) (\<lambda>_.
      seq (downloadBackup L cluster_object backup_file) (\<lambda>downloaded_file.
      seq (try_except
             (check_output [''mongorestore'', ''--host'', hostname, ''--gzip'', ''--archive'',
                            downloaded_file])
             (\<lambda>err. case err of
                CalledProcessError returncode stderr stdout \<Rightarrow>
                  raise (SubprocessError (Fmt restore_error_template
                    [opt_str backup_file, PStr hostname, PInt returncode, stderr, stdout]))
              | _ \<Rightarrow> raise err)) (\<lambda>restore_output.
      seq (logging DEBUG ''Restore output: %s'' [LVal restore_output]) (\<lambda>_.
      os_remove downloaded_file)))))"

definition restoreIfNeeded :: "lib \<Rightarrow> cluster_object \<Rightarrow> bool io" where
  "restoreIfNeeded L cluster_object =
     (case restore_from (spec_backups_gcs cluster_object) of
        Some backup_file \<Rightarrow>
          seq (py_print [LVal (PStr ''backup_file''), LVal (opt_str backup_file)]) (\<lambda>_.
          seq (if backup_file = Some ''latest'' then getLastBackup L cluster_object
               else ret backup_file) (\<lambda>backup_file.
          seq (logging INFO ''Attempting to restore file %s to Cluster %s @ ns/%s.''
                 [LVal (opt_str backup_file), LVal (PStr (metadata_name cluster_object)),
                  LVal (PStr (metadata_namespace cluster_object))]) (\<lambda>_.
          seq (restore L cluster_object backup_file) (\<lambda>_.
          ret True))))
      | None \<Rightarrow> ret False)"

section \<open>Example inputs\<close>

definition example_lib :: lib where
  "example_lib =
     \<lparr>KubernetesResources_createService = (\<lambda>c. ''Service '' @ metadata_name c),
      MongoResources_getMemberHostname =
        (\<lambda>i name namespace. name @ ''-last.'' @ name @ ''.'' @ namespace @ ''.svc.cluster.local''),
      b64decode = (\<lambda>s. Inr s),
      json_loads = (\<lambda>s. Inr [(''private_key'', s)]),
      str_of = (\<lambda>v. ''<object>'')\<rparr>"

definition example_cluster :: cluster_object where
  "example_cluster =
     \<lparr>metadata_name = ''mongo-cluster'',
      metadata_namespace = ''default'',
      spec_mongodb_replicas = 3,
      spec_backups_gcs =
        \<lparr>bucket = ''mongo-backups'',
         prefix = Some ''test-backups'',
         restore_bucket = None,
         restore_from = Some (Some ''latest''),
         service_account_secret_key_ref =
           \<lparr>ref_name = ''storage-serviceaccount'', ref_key = ''json''\<rparr>\<rparr>\<rparr>"

text \<open>
  A world in which the storage credentials exist as a secret, nothing fails, the
  bucket is empty, no file has been downloaded and every executable exits with code
  zero.
\<close>

definition example_world :: world where
  "example_world =
     \<lparr>trace = [],
      failure = (\<lambda>n c. None),
      secrets = [(''default'', ''storage-serviceaccount'') \<mapsto>
                   \<lparr>secret_name = ''storage-serviceaccount'', string_data = [],
                    data = [(''json'', ''e30='')]\<rparr>],
      bucket_listing = (\<lambda>bucket_name key. []),
      files = {},
      process = (\<lambda>argv. Exited 0 ''done'' ''''),
      passwords = (\<lambda>n. if n = 0 then ''first-password'' else ''later-password''),
      drawn = 0,
      logged = []\<rparr>"

definition example_event :: "string \<Rightarrow> event" where
  "example_event type = \<lparr>ev_type = Some type, ev_object = Some example_cluster\<rparr>"

text \<open>The platform cannot be reached: the client raises a transport error.\<close>

definition unreachable_world :: world where
  "unreachable_world =
     example_world\<lparr>failure := (\<lambda>n c. Some (OtherError ''urllib3.exceptions.MaxRetryError''))\<rparr>"

text \<open>The platform answers every request with status 500.\<close>

definition rejecting_world :: world where
  "rejecting_world = example_world\<lparr>failure := (\<lambda>n c. Some (ApiException 500))\<rparr>"

definition example_backup :: string where
  "example_backup = ''mongodb-backup-default-mongo-cluster-2018-02-02_12-00-00.archive.gz''"

text \<open>
  The restore executable exits with code 1, having written nothing on its standard
  output and its complaint on its standard error; every other call succeeds.
\<close>

definition failing_restore_world :: world where
  "failing_restore_world =
     example_world\<lparr>process := (\<lambda>argv. Exited 1 '''' ''Failed: gzip: invalid header'')\<rparr>"

text \<open>The same, with progress lines on the standard output.\<close>

definition noisy_restore_world :: world where
  "noisy_restore_world =
     example_world\<lparr>process := (\<lambda>argv.
        Exited 1 ''preparing collections to restore from'' ''Failed: gzip: invalid header'')\<rparr>"

text \<open>
  Three artifacts created on 2021-01-01, 2021-06-01 and 2021-03-01 (seconds since the
  epoch, UTC), listed in this order.
\<close>

definition example_blobs :: "blob list" where
  "example_blobs =
     [\<lparr>blob_name = ''test-backups/t1.archive.gz'', time_created = 1609459200\<rparr>,
      \<lparr>blob_name = ''test-backups/t2.archive.gz'', time_created = 1622505600\<rparr>,
      \<lparr>blob_name = ''test-backups/t3.archive.gz'', time_created = 1614556800\<rparr>]"

definition three_backups_world :: world where
  "three_backups_world = example_world\<lparr>bucket_listing := (\<lambda>bucket_name key. example_blobs)\<rparr>"

section \<open>Unfolding rules\<close>

lemmas io_defs =
  ret_def raise_def seq_def try_except_def perform_def
  emit_def logging_def logging_formatted_def py_print_def

lemmas api_defs =
  create_namespaced_secret_def read_namespaced_secret_def delete_namespaced_secret_def
  create_namespaced_service_def patch_namespaced_service_def delete_namespaced_service_def
  create_namespaced_stateful_set_def patch_namespaced_stateful_set_def
  delete_namespaced_stateful_set_def

lemmas example_defs =
  example_lib_def example_cluster_def example_world_def example_event_def example_backup_def

lemmas restore_defs =
  restore_def downloadBackup_def downloadFile_def getCredentials_def getSecret_def
  read_namespaced_secret_def download_to_filename_def check_output_def os_remove_def
  py_or_def opt_str_def py_str_def DEFAULT_BACKUP_PREFIX_def

lemmas dispatch_defs =
  processEvent_def EventTypes_members_def event_type_to_action_map_def

section \<open>Event processing\<close>

text \<open>
  C2. The claim: a Deleted event deletes the stateful set, then the service, then the
  secret, and the sequence completes without raising. The code does otherwise:
  \<^verbatim>\<open>_delete\<close> calls \<^verbatim>\<open>deleteStatefulSet(cluster_object)\<close> with one argument, the
  method declares \<^verbatim>\<open>(name, namespace)\<close>, so the call raises \<^verbatim>\<open>TypeError\<close> before any
  request is made; the world is unchanged, no delete is issued, and since the
  exception is not an \<^verbatim>\<open>ApiException\<close> it leaves \<^verbatim>\<open>_processEvent\<close> as well.
\<close>

theorem delete_handler_raises_before_any_request:
  "EventManager_delete L c w =
     (Inl (TypeError (''deleteStatefulSet() missing 1 required positional argument: ''
             @ quoted ''namespace'')), w)
   \<and> processEvent L \<lparr>ev_type = Some ''DELETED'', ev_object = Some c\<rparr> w =
     (Inl (TypeError (''deleteStatefulSet() missing 1 required positional argument: ''
             @ quoted ''namespace'')), w)"
  by (simp add: dispatch_defs EventManager_delete_def deleteStatefulSet_def
        seq_def raise_def try_except_def)



text \<open>
  C6. Handling a Modified event makes one patch request for the service and, when
  that one succeeds, one patch request for the stateful set, both with the body of
  the cluster object, and nothing else: no request names a secret, and the secrets
  of the platform after the event are those before it.
\<close>

theorem modified_patches_service_and_stateful_set_only:
  assumes "ev_type ev = Some ''MODIFIED''" and "ev_object ev = Some c"
  shows "(trace (snd (processEvent L ev w)) = trace w @
            [PatchNamespacedService (metadata_name c) (metadata_namespace c)
               (KubernetesResources_createService L c)]
        \<or> trace (snd (processEvent L ev w)) = trace w @
            [PatchNamespacedService (metadata_name c) (metadata_namespace c)
               (KubernetesResources_createService L c),
             PatchNamespacedStatefulSet (metadata_name c) (metadata_namespace c)
               (KubernetesResources_createService L c)])
      \<and> secrets (snd (processEvent L ev w)) = secrets w"
  using assms
  by (simp add: dispatch_defs EventManager_update_def updateService_def updateStatefulSet_def
        api_defs io_defs Let_def split: option.splits exn.splits)

theorem modified_patches_service_and_stateful_set_only_witness:
  "ev_type (example_event ''MODIFIED'') = Some ''MODIFIED''
   \<and> ev_object (example_event ''MODIFIED'') = Some example_cluster
   \<and> trace (snd (processEvent example_lib (example_event ''MODIFIED'') example_world)) =
       [PatchNamespacedService ''mongo-cluster'' ''default'' ''Service mongo-cluster'',
        PatchNamespacedStatefulSet ''mongo-cluster'' ''default'' ''Service mongo-cluster'']
   \<and> secrets (snd (processEvent example_lib (example_event ''MODIFIED'') example_world)) =
       secrets example_world"
proof -
  have a: "ev_type (example_event ''MODIFIED'') = Some ''MODIFIED''"
    and b: "ev_object (example_event ''MODIFIED'') = Some example_cluster"
    by (simp_all add: example_event_def)
  have t: "trace (snd (processEvent example_lib (example_event ''MODIFIED'') example_world)) =
       [PatchNamespacedService ''mongo-cluster'' ''default'' ''Service mongo-cluster'',
        PatchNamespacedStatefulSet ''mongo-cluster'' ''default'' ''Service mongo-cluster'']"
    by (simp add: example_defs dispatch_defs EventManager_update_def updateService_def
          updateStatefulSet_def api_defs io_defs Let_def)
  show ?thesis
    using a b t modified_patches_service_and_stateful_set_only
                  [OF a b, of example_lib example_world]
    by simp
qed

text \<open>
  C8. The claim: every failure of a resource operation during a handler is caught in
  event processing. It fails: the \<^verbatim>\<open>except\<close> clause of \<^verbatim>\<open>_processEvent\<close> names
  \<^verbatim>\<open>ApiException\<close> only. When the platform cannot be reached the client raises a
  transport error, which is not an \<^verbatim>\<open>ApiException\<close>; it leaves the event processor
  and nothing is logged.
\<close>

theorem processEvent_transport_error_propagates:
  "fst (processEvent example_lib (example_event ''ADDED'') unreachable_world) =
     Inl (OtherError ''urllib3.exceptions.MaxRetryError'')
   \<and> logged (snd (processEvent example_lib (example_event ''ADDED'') unreachable_world)) = []"
  by (simp add: unreachable_world_def example_defs dispatch_defs EventManager_add_def
        createOperatorAdminSecret_def createSecret_def
        KubernetesResources_createRandomPassword_def KubernetesResources_createSecret_def
        OPERATOR_ADMIN_SECRET_FORMAT_def api_defs io_defs Let_def)

text \<open>
  The call \<^verbatim>\<open>logging.exception("API error with {} object {}: {}", type, object, error)\<close>
  of \<^verbatim>\<open>_processEvent\<close> passes three arguments to a message without a \<^verbatim>\<open>%\<close>
  specifier: no record is written, and the call returns normally.
\<close>

lemma api_error_record_is_not_rendered:
  "logging ERROR ''API error with {} object {}: {}'' [a, b, c] =
     emit STDERR ''--- Logging error ---''
       [LVal (PStr ''API error with {} object {}: {}''), a, b, c]"
  by (simp add: logging_def)

text \<open>An exception of another class than \<^verbatim>\<open>ApiException\<close> passes through.\<close>

lemma processEvent_other_classes_propagate:
  assumes "ev_type ev = Some t" and "ev_object ev = Some c"
      and "map_of (event_type_to_action_map L) t = Some action"
      and "action c w = (Inl e, w')" and "\<forall>status. e \<noteq> ApiException status"
  shows "processEvent L ev w = (Inl e, w')"
proof -
  have mem: "t \<in> set EventTypes_members"
    using assms(3)
    by (auto simp: event_type_to_action_map_def EventTypes_members_def split: if_splits)
  show ?thesis
    using assms mem
    by (cases e) (simp_all add: processEvent_def try_except_def raise_def)
qed

text \<open>
  C8, as amended. For an event of type ADDED or MODIFIED that carries an object:
  when a resource operation raises an \<^verbatim>\<open>ApiException\<close> out of the handler, event
  processing catches it and returns normally, and the world afterwards is the one
  the handler left apart from lines written by the logging call; no \<^verbatim>\<open>ApiException\<close>
  ever leaves the event processor.
\<close>

theorem processEvent_catches_ApiException:
  assumes "ev_type ev = Some t" and "t = ''ADDED'' \<or> t = ''MODIFIED''"
      and "ev_object ev = Some c"
      and "map_of (event_type_to_action_map L) t = Some action"
  shows "(\<forall>status w'. action c w = (Inl (ApiException status), w') \<longrightarrow>
            fst (processEvent L ev w) = Inr ()
          \<and> (\<exists>lines. snd (processEvent L ev w) = w'\<lparr>logged := logged w' @ lines\<rparr>))
       \<and> (\<forall>status. fst (processEvent L ev w) \<noteq> Inl (ApiException status))"
proof -
  have mem: "t \<in> set EventTypes_members"
    using assms(2) by (auto simp: EventTypes_members_def)
  obtain r w1 where r: "action c w = (r, w1)" by (cases "action c w")
  show ?thesis
  proof (cases r)
    case (Inr u)
    then show ?thesis using assms(1,3,4) mem r
      by (simp add: processEvent_def try_except_def)
  next
    case (Inl e)
    show ?thesis
    proof (cases "\<exists>status. e = ApiException status")
      case True
      then obtain status where e: "e = ApiException status" by blast
      have "processEvent L ev w =
              (Inr (), w1\<lparr>logged := logged w1 @
                 [(STDERR, ''--- Logging error ---'',
                   [LVal (PStr ''API error with {} object {}: {}''),
                    LVal (PStr t), LVal (PObj c), LExn (ApiException status)])]\<rparr>)"
        using assms(1,3,4) mem r Inl e
        by (simp add: processEvent_def try_except_def api_error_record_is_not_rendered emit_def)
      then show ?thesis using r Inl e by auto
    next
      case False
      then have "processEvent L ev w = (Inl e, w1)"
        using processEvent_other_classes_propagate[OF assms(1,3,4)] r Inl by simp
      then show ?thesis using r Inl False by auto
    qed
  qed
qed

theorem processEvent_catches_ApiException_witness:
  "ev_type (example_event ''ADDED'') = Some ''ADDED''
   \<and> ev_object (example_event ''ADDED'') = Some example_cluster
   \<and> map_of (event_type_to_action_map example_lib) ''ADDED'' = Some (EventManager_add example_lib)
   \<and> fst (EventManager_add example_lib example_cluster rejecting_world) = Inl (ApiException 500)
   \<and> fst (processEvent example_lib (example_event ''ADDED'') rejecting_world) = Inr ()
   \<and> trace (snd (processEvent example_lib (example_event ''ADDED'') rejecting_world)) =
       trace (snd (EventManager_add example_lib example_cluster rejecting_world))
   \<and> ev_type (example_event ''MODIFIED'') = Some ''MODIFIED''
   \<and> ev_object (example_event ''MODIFIED'') = Some example_cluster
   \<and> map_of (event_type_to_action_map example_lib) ''MODIFIED'' =
       Some (EventManager_update example_lib)
   \<and> fst (EventManager_update example_lib example_cluster rejecting_world) =
       Inl (ApiException 500)
   \<and> fst (processEvent example_lib (example_event ''MODIFIED'') rejecting_world) = Inr ()
   \<and> trace (snd (processEvent example_lib (example_event ''MODIFIED'') rejecting_world)) =
       trace (snd (EventManager_update example_lib example_cluster rejecting_world))"
proof -
  have a: "ev_type (example_event ''ADDED'') = Some ''ADDED''"
    and b: "ev_object (example_event ''ADDED'') = Some example_cluster"
    and a': "ev_type (example_event ''MODIFIED'') = Some ''MODIFIED''"
    and b': "ev_object (example_event ''MODIFIED'') = Some example_cluster"
    by (simp_all add: example_event_def)
  have m: "map_of (event_type_to_action_map example_lib) ''ADDED'' =
             Some (EventManager_add example_lib)"
    and m': "map_of (event_type_to_action_map example_lib) ''MODIFIED'' =
             Some (EventManager_update example_lib)"
    by (simp_all add: event_type_to_action_map_def)
  obtain w1 where h: "EventManager_add example_lib example_cluster rejecting_world =
      (Inl (ApiException 500), w1)"
    by (simp add: rejecting_world_def example_defs EventManager_add_def
          createOperatorAdminSecret_def createSecret_def
          KubernetesResources_createRandomPassword_def KubernetesResources_createSecret_def
          OPERATOR_ADMIN_SECRET_FORMAT_def api_defs io_defs Let_def)
  obtain w2 where h': "EventManager_update example_lib example_cluster rejecting_world =
      (Inl (ApiException 500), w2)"
    by (simp add: rejecting_world_def example_defs EventManager_update_def
          updateService_def api_defs io_defs Let_def)
  from processEvent_catches_ApiException [OF a _ b m, of rejecting_world] h
  have p: "fst (processEvent example_lib (example_event ''ADDED'') rejecting_world) = Inr ()
     \<and> (\<exists>lines. snd (processEvent example_lib (example_event ''ADDED'') rejecting_world) =
           w1\<lparr>logged := logged w1 @ lines\<rparr>)"
    by blast
  from processEvent_catches_ApiException [OF a' _ b' m', of rejecting_world] h'
  have p': "fst (processEvent example_lib (example_event ''MODIFIED'') rejecting_world) = Inr ()
     \<and> (\<exists>lines. snd (processEvent example_lib (example_event ''MODIFIED'') rejecting_world) =
           w2\<lparr>logged := logged w2 @ lines\<rparr>)"
    by blast
  show ?thesis using a b m h p a' b' m' h' p' by auto
qed

section \<open>Request bodies\<close>

text \<open>
  C10. The body sent when creating or patching the stateful set is the value of
  \<^verbatim>\<open>KubernetesResources.createService\<close> on the cluster object, the same body that is
  sent when creating or patching the service.
\<close>

theorem stateful_set_body_is_service_body:
  "trace (snd (createStatefulSet L c w)) = trace w @
     [CreateNamespacedStatefulSet (metadata_namespace c) (KubernetesResources_createService L c)]
   \<and> trace (snd (createService L c w)) = trace w @
     [CreateNamespacedService (metadata_namespace c) (KubernetesResources_createService L c)]
   \<and> trace (snd (updateStatefulSet L c w)) = trace w @
     [PatchNamespacedStatefulSet (metadata_name c) (metadata_namespace c)
        (KubernetesResources_createService L c)]
   \<and> trace (snd (updateService L c w)) = trace w @
     [PatchNamespacedService (metadata_name c) (metadata_namespace c)
        (KubernetesResources_createService L c)]"
  by (simp add: createStatefulSet_def createService_def updateStatefulSet_def
        updateService_def api_defs io_defs Let_def split: option.splits)

section \<open>The credential secret on a repeated Added event\<close>

lemma createOperatorAdminSecret_existing:
  assumes "secrets w (metadata_namespace c, OPERATOR_ADMIN_SECRET_FORMAT (metadata_name c)) = Some s"
      and "\<forall>n body. failure w n (CreateNamespacedSecret (metadata_namespace c) body) = None"
      and "\<forall>n. failure w n (ReadNamespacedSecret (OPERATOR_ADMIN_SECRET_FORMAT (metadata_name c))
              (metadata_namespace c)) = None"
  shows "fst (createOperatorAdminSecret c w) = Inr s"
    and "trace (snd (createOperatorAdminSecret c w)) = trace w @
          [CreateNamespacedSecret (metadata_namespace c)
             (KubernetesResources_createSecret (OPERATOR_ADMIN_SECRET_FORMAT (metadata_name c))
                (metadata_namespace c)
                [(''username'', ''root''), (''password'', passwords w (drawn w))]),
           ReadNamespacedSecret (OPERATOR_ADMIN_SECRET_FORMAT (metadata_name c))
             (metadata_namespace c)]"
  using assms
  by (simp_all add: createOperatorAdminSecret_def createSecret_def getSecret_def
        KubernetesResources_createRandomPassword_def KubernetesResources_createSecret_def
        api_defs io_defs Let_def)

lemma createOperatorAdminSecret_stores:
  assumes "\<forall>n body. failure w n (CreateNamespacedSecret (metadata_namespace c) body) = None"
      and "\<forall>n. failure w n (ReadNamespacedSecret (OPERATOR_ADMIN_SECRET_FORMAT (metadata_name c))
              (metadata_namespace c)) = None"
  shows "\<exists>s w'. createOperatorAdminSecret c w = (Inr s, w')
           \<and> secrets w' (metadata_namespace c, OPERATOR_ADMIN_SECRET_FORMAT (metadata_name c))
               = Some s
           \<and> failure w' = failure w"
  using assms
  by (cases "secrets w (metadata_namespace c, OPERATOR_ADMIN_SECRET_FORMAT (metadata_name c))")
     (simp_all add: createOperatorAdminSecret_def createSecret_def getSecret_def
        KubernetesResources_createRandomPassword_def KubernetesResources_createSecret_def
        api_defs io_defs Let_def)

lemma createService_keeps:
  "createService L c w = (r, w') \<Longrightarrow> secrets w' = secrets w \<and> failure w' = failure w"
  by (auto simp: createService_def api_defs io_defs Let_def split: option.splits)

lemma createStatefulSet_keeps:
  "createStatefulSet L c w = (r, w') \<Longrightarrow> secrets w' = secrets w \<and> failure w' = failure w"
  by (auto simp: createStatefulSet_def api_defs io_defs Let_def split: option.splits)

lemma EventManager_add_keeps:
  assumes "createOperatorAdminSecret c w = (Inr s, w1)"
  shows "secrets (snd (EventManager_add L c w)) = secrets w1
       \<and> failure (snd (EventManager_add L c w)) = failure w1"
proof -
  obtain r2 w2 where r2: "createService L c w1 = (r2, w2)"
    by (cases "createService L c w1")
  obtain r3 w3 where r3: "createStatefulSet L c w2 = (r3, w3)"
    by (cases "createStatefulSet L c w2")
  note k2 = createService_keeps[OF r2]
  note k3 = createStatefulSet_keeps[OF r3]
  have "snd (EventManager_add L c w) = w2 \<or> snd (EventManager_add L c w) = w3"
    using assms r2 r3
    by (cases r2; cases r3) (simp_all add: EventManager_add_def seq_def ret_def)
  then show ?thesis using k2 k3 by auto
qed

text \<open>Event processing adds at most a log record to what the handler leaves.\<close>

lemma processEvent_world:
  assumes "ev_type ev = Some t" and "ev_object ev = Some c"
      and "map_of (event_type_to_action_map L) t = Some action"
  shows "secrets (snd (processEvent L ev w)) = secrets (snd (action c w))
       \<and> failure (snd (processEvent L ev w)) = failure (snd (action c w))
       \<and> trace (snd (processEvent L ev w)) = trace (snd (action c w))"
proof -
  have mem: "t \<in> set EventTypes_members"
    using assms(3)
    by (auto simp: event_type_to_action_map_def EventTypes_members_def split: if_splits)
  obtain r w' where r: "action c w = (r, w')" by (cases "action c w")
  show ?thesis
  proof (cases r)
    case (Inl e)
    then show ?thesis using assms mem r
      by (cases e)
         (simp_all add: processEvent_def try_except_def logging_def emit_def raise_def)
  next
    case (Inr u)
    then show ?thesis using assms mem r
      by (simp add: processEvent_def try_except_def)
  qed
qed

lemma processEvent_added_keeps_secret:
  assumes "ev_type ev = Some ''ADDED''" and "ev_object ev = Some c"
      and "\<forall>n body. failure w n (CreateNamespacedSecret (metadata_namespace c) body) = None"
      and "\<forall>n. failure w n (ReadNamespacedSecret (OPERATOR_ADMIN_SECRET_FORMAT (metadata_name c))
              (metadata_namespace c)) = None"
  shows "\<exists>s. secrets (snd (processEvent L ev w))
               (metadata_namespace c, OPERATOR_ADMIN_SECRET_FORMAT (metadata_name c)) = Some s"
    and "failure (snd (processEvent L ev w)) = failure w"
proof -
  from createOperatorAdminSecret_stores[OF assms(3,4)] obtain s w1 where
    r: "createOperatorAdminSecret c w = (Inr s, w1)"
    and s: "secrets w1 (metadata_namespace c, OPERATOR_ADMIN_SECRET_FORMAT (metadata_name c))
              = Some s"
    and f: "failure w1 = failure w" by blast
  have m: "map_of (event_type_to_action_map L) ''ADDED'' = Some (EventManager_add L)"
    by (simp add: event_type_to_action_map_def)
  note pw = processEvent_world[OF assms(1,2) m, of w]
  note ak = EventManager_add_keeps[OF r, of L]
  show "\<exists>s. secrets (snd (processEvent L ev w))
               (metadata_namespace c, OPERATOR_ADMIN_SECRET_FORMAT (metadata_name c)) = Some s"
    using pw ak s by simp
  show "failure (snd (processEvent L ev w)) = failure w"
    using pw ak f by simp
qed

text \<open>
  C4. Let an Added event for a cluster be handled, on a platform that answers
  requests for that cluster's admin secret from its store (no failure is injected
  into them). Then the admin secret exists, and creating it again, as the handler of
  a second Added event for the same cluster first does, does not raise: the create
  request is answered with status 409, the secret is read, and the existing secret
  is returned.
\<close>

theorem second_add_fetches_existing_secret:
  assumes "ev_type ev = Some ''ADDED''" and "ev_object ev = Some c"
      and "\<forall>n body. failure w n (CreateNamespacedSecret (metadata_namespace c) body) = None"
      and "\<forall>n. failure w n (ReadNamespacedSecret (OPERATOR_ADMIN_SECRET_FORMAT (metadata_name c))
              (metadata_namespace c)) = None"
  shows "\<exists>s body.
           secrets (snd (processEvent L ev w))
             (metadata_namespace c, OPERATOR_ADMIN_SECRET_FORMAT (metadata_name c)) = Some s
         \<and> fst (createOperatorAdminSecret c (snd (processEvent L ev w))) = Inr s
         \<and> trace (snd (createOperatorAdminSecret c (snd (processEvent L ev w)))) =
             trace (snd (processEvent L ev w)) @
               [CreateNamespacedSecret (metadata_namespace c) body,
                ReadNamespacedSecret (OPERATOR_ADMIN_SECRET_FORMAT (metadata_name c))
                  (metadata_namespace c)]"
proof -
  let ?w1 = "snd (processEvent L ev w)"
  from processEvent_added_keeps_secret[OF assms] obtain s where
    s: "secrets ?w1 (metadata_namespace c, OPERATOR_ADMIN_SECRET_FORMAT (metadata_name c))
          = Some s"
    and f: "failure ?w1 = failure w" by blast
  have a: "\<forall>n body. failure ?w1 n (CreateNamespacedSecret (metadata_namespace c) body) = None"
    and b: "\<forall>n. failure ?w1 n
              (ReadNamespacedSecret (OPERATOR_ADMIN_SECRET_FORMAT (metadata_name c))
                 (metadata_namespace c)) = None"
    using assms(3,4) f by simp_all
  show ?thesis
    using s createOperatorAdminSecret_existing[OF s a b] by blast
qed

lemmas add_defs =
  EventManager_add_def createOperatorAdminSecret_def createSecret_def getSecret_def
  createService_def createStatefulSet_def KubernetesResources_createRandomPassword_def
  KubernetesResources_createSecret_def OPERATOR_ADMIN_SECRET_FORMAT_def

theorem second_add_fetches_existing_secret_witness:
  "ev_type (example_event ''ADDED'') = Some ''ADDED''
   \<and> ev_object (example_event ''ADDED'') = Some example_cluster
   \<and> (\<forall>n body. failure example_world n
         (CreateNamespacedSecret (metadata_namespace example_cluster) body) = None)
   \<and> (\<forall>n. failure example_world n
         (ReadNamespacedSecret (OPERATOR_ADMIN_SECRET_FORMAT (metadata_name example_cluster))
            (metadata_namespace example_cluster)) = None)
   \<and> fst (createOperatorAdminSecret example_cluster
             (snd (processEvent example_lib (example_event ''ADDED'') example_world))) =
       Inr \<lparr>secret_name = ''mongo-cluster-admin-credentials'',
            string_data = [(''username'', ''root''), (''password'', ''first-password'')],
            data = []\<rparr>
   \<and> fst (processEvent example_lib (example_event ''ADDED'')
             (snd (processEvent example_lib (example_event ''ADDED'') example_world))) = Inr ()"
proof -
  have a: "ev_type (example_event ''ADDED'') = Some ''ADDED''"
    and b: "ev_object (example_event ''ADDED'') = Some example_cluster"
    by (simp_all add: example_event_def)
  have h1: "\<forall>n body. failure example_world n
         (CreateNamespacedSecret (metadata_namespace example_cluster) body) = None"
    and h2: "\<forall>n. failure example_world n
         (ReadNamespacedSecret (OPERATOR_ADMIN_SECRET_FORMAT (metadata_name example_cluster))
            (metadata_namespace example_cluster)) = None"
    by (simp_all add: example_world_def)
  from second_add_fetches_existing_secret [OF a b h1 h2, of example_lib] obtain s where
    s: "secrets (snd (processEvent example_lib (example_event ''ADDED'') example_world))
          (metadata_namespace example_cluster,
           OPERATOR_ADMIN_SECRET_FORMAT (metadata_name example_cluster)) = Some s"
    and r: "fst (createOperatorAdminSecret example_cluster
             (snd (processEvent example_lib (example_event ''ADDED'') example_world))) = Inr s"
    by blast
  have "secrets (snd (processEvent example_lib (example_event ''ADDED'') example_world))
          (metadata_namespace example_cluster,
           OPERATOR_ADMIN_SECRET_FORMAT (metadata_name example_cluster)) =
        Some \<lparr>secret_name = ''mongo-cluster-admin-credentials'',
            string_data = [(''username'', ''root''), (''password'', ''first-password'')],
            data = []\<rparr>"
    by (simp add: example_defs dispatch_defs add_defs api_defs io_defs Let_def)
  with s r have c: "fst (createOperatorAdminSecret example_cluster
             (snd (processEvent example_lib (example_event ''ADDED'') example_world))) =
       Inr \<lparr>secret_name = ''mongo-cluster-admin-credentials'',
            string_data = [(''username'', ''root''), (''password'', ''first-password'')],
            data = []\<rparr>" by simp
  have d: "fst (processEvent example_lib (example_event ''ADDED'')
             (snd (processEvent example_lib (example_event ''ADDED'') example_world))) = Inr ()"
    by (simp add: example_defs dispatch_defs add_defs api_defs io_defs Let_def)
  show ?thesis using a b h1 h2 c d by simp
qed

section \<open>Selecting the latest backup\<close>

lemma logging_appends:
  "\<exists>line. logging lvl msg args w = (Inr (), w\<lparr>logged := logged w @ [line]\<rparr>)"
  by (cases "args = [] \<or> percent_specs msg = Some (length args)")
     (auto simp: logging_def emit_def)

text \<open>
  Started with a current maximum \<open>l\<close>, the loop ends with the first blob of \<open>l # xs\<close>
  whose creation time is maximal.
\<close>

lemma lastBackupFile_loop_first_max:
  "\<exists>x earlier later w'.
     lastBackupFile_loop b xs (Some l) w = (Inr (Some x), w')
   \<and> l # xs = earlier @ x # later
   \<and> (\<forall>y\<in>set earlier. time_created y < time_created x)
   \<and> (\<forall>y\<in>set later. time_created y \<le> time_created x)"
proof (induction xs arbitrary: l w)
  case Nil
  have "[l] = [] @ l # []" by simp
  then show ?case unfolding lastBackupFile_loop.simps ret_def
    by (metis empty_iff list.set(1))
next
  case (Cons a xs)
  obtain line where lg: "logging INFO found_backup_file
            [LVal (PStr (blob_name a)), LVal (PStr b)] w =
          (Inr (), w\<lparr>logged := logged w @ [line]\<rparr>)"
    using logging_appends by blast
  let ?w = "w\<lparr>logged := logged w @ [line]\<rparr>"
  show ?case
  proof (cases "time_created a > time_created l")
    case True
    from Cons.IH[of a ?w] obtain x earlier later w' where
      r: "lastBackupFile_loop b xs (Some a) ?w = (Inr (Some x), w')"
      and d: "a # xs = earlier @ x # later"
      and e: "\<forall>y\<in>set earlier. time_created y < time_created x"
      and lt: "\<forall>y\<in>set later. time_created y \<le> time_created x"
      by blast
    have "a \<in> set (earlier @ x # later)" using d by (metis list.set_intros(1))
    then have ax: "time_created a \<le> time_created x" using e lt by auto
    have "lastBackupFile_loop b (a # xs) (Some l) w = (Inr (Some x), w')"
      using True r lg by (simp add: seq_def)
    moreover have "l # a # xs = (l # earlier) @ x # later" using d by simp
    moreover have "\<forall>y\<in>set (l # earlier). time_created y < time_created x"
      using e ax True by auto
    ultimately show ?thesis using lt by blast
  next
    case False
    from Cons.IH[of l ?w] obtain x earlier later w' where
      r: "lastBackupFile_loop b xs (Some l) ?w = (Inr (Some x), w')"
      and d: "l # xs = earlier @ x # later"
      and e: "\<forall>y\<in>set earlier. time_created y < time_created x"
      and lt: "\<forall>y\<in>set later. time_created y \<le> time_created x"
      by blast
    have run: "lastBackupFile_loop b (a # xs) (Some l) w = (Inr (Some x), w')"
      using False r lg by (simp add: seq_def)
    show ?thesis
    proof (cases earlier)
      case Nil
      then have "x = l" "later = xs" using d by simp_all
      then have "l # a # xs = [] @ x # (a # later)"
        and "\<forall>y\<in>set (a # later). time_created y \<le> time_created x"
        using False lt by auto
      then show ?thesis using run by (metis empty_iff list.set(1))
    next
      case (Cons e0 es)
      then have e0: "e0 = l" and xs: "xs = es @ x # later" using d by simp_all
      have "l # a # xs = (l # a # es) @ x # later" using xs by simp
      moreover have "\<forall>y\<in>set (l # a # es). time_created y < time_created x"
        using e Cons e0 False by auto
      ultimately show ?thesis using run lt by blast
    qed
  qed
qed

text \<open>
  C7. When the listing succeeds and is not empty, \<^verbatim>\<open>_lastBackupFile\<close> returns the
  name of a listed blob \<open>x\<close> such that every blob listed before \<open>x\<close> is strictly older
  and every blob listed after \<open>x\<close> is not newer: the creation time of \<open>x\<close> is maximal,
  and among blobs of equal maximal time the first listed wins. On the listing with
  creation times 2021-01-01, 2021-06-01, 2021-03-01 the result is the second blob.
\<close>

theorem lastBackupFile_first_latest:
  assumes "failure w (length (trace w)) (ListBlobs credentials bucket_name key) = None"
      and "bucket_listing w bucket_name key \<noteq> []"
  shows "\<exists>x earlier later.
           fst (lastBackupFile credentials bucket_name key w) = Inr (Some (blob_name x))
         \<and> bucket_listing w bucket_name key = earlier @ x # later
         \<and> (\<forall>y\<in>set earlier. time_created y < time_created x)
         \<and> (\<forall>y\<in>set later. time_created y \<le> time_created x)"
proof -
  obtain a xs where ax: "bucket_listing w bucket_name key = a # xs"
    using assms(2) by (cases "bucket_listing w bucket_name key") auto
  let ?w1 = "w\<lparr>trace := trace w @ [ListBlobs credentials bucket_name key]\<rparr>"
  obtain line where lg: "logging INFO found_backup_file
            [LVal (PStr (blob_name a)), LVal (PStr bucket_name)] ?w1 =
          (Inr (), ?w1\<lparr>logged := logged ?w1 @ [line]\<rparr>)"
    using logging_appends by blast
  let ?w2 = "?w1\<lparr>logged := logged ?w1 @ [line]\<rparr>"
  from lastBackupFile_loop_first_max[of bucket_name xs a ?w2] obtain x earlier later w' where
      r: "lastBackupFile_loop bucket_name xs (Some a) ?w2 = (Inr (Some x), w')"
      and d: "a # xs = earlier @ x # later"
      and e: "\<forall>y\<in>set earlier. time_created y < time_created x"
      and lt: "\<forall>y\<in>set later. time_created y \<le> time_created x"
    by blast
  have "fst (lastBackupFile credentials bucket_name key w) = Inr (Some (blob_name x))"
    using assms(1) ax r lg
    by (simp add: lastBackupFile_def storage_list_blobs_def seq_def perform_def ret_def)
  then show ?thesis using ax d e lt by metis
qed

theorem lastBackupFile_first_latest_witness:
  "failure three_backups_world (length (trace three_backups_world))
       (ListBlobs [] ''mongo-backups'' ''test-backups/'') = None
   \<and> bucket_listing three_backups_world ''mongo-backups'' ''test-backups/'' \<noteq> []
   \<and> fst (lastBackupFile [] ''mongo-backups'' ''test-backups/'' three_backups_world)
       = Inr (Some ''test-backups/t2.archive.gz'')"
  using lastBackupFile_first_latest
          [of three_backups_world "[]" "''mongo-backups''" "''test-backups/''"]
  by (simp add: three_backups_world_def example_world_def example_blobs_def
        lastBackupFile_def storage_list_blobs_def found_backup_file_def quoted_def io_defs)

section \<open>Restore\<close>

text \<open>
  C9. The claim: when the restore executable exits with a non-zero code, \<^verbatim>\<open>restore\<close>
  raises a distinct failure whose message carries the artifact name, the host name
  of the target member, the exit code and the captured stderr and stdout. The code
  does raise \<^verbatim>\<open>SubprocessError\<close>, and the message carries the artifact name, the host
  name, the exit code and the captured standard output. It does otherwise for the
  standard error: \<^verbatim>\<open>check_output\<close> is called without a \<^verbatim>\<open>stderr\<close> argument, so what
  the executable writes there is not captured, \<^verbatim>\<open>err.stderr\<close> is \<^verbatim>\<open>None\<close>, and the
  message is formatted with \<^verbatim>\<open>None\<close> in that place. Here the executable exits with
  code 1 after writing a progress line on its standard output and its complaint on
  its standard error; the complaint is not in the message.
\<close>

theorem restore_message_lacks_stderr:
  "process noisy_restore_world
     [''mongorestore'', ''--host'',
      ''mongo-cluster-last.mongo-cluster.default.svc.cluster.local'',
      ''--gzip'', ''--archive'', ''/tmp/'' @ example_backup] =
     Exited 1 ''preparing collections to restore from'' ''Failed: gzip: invalid header''
   \<and> fst (restore example_lib example_cluster (Some example_backup) noisy_restore_world) =
       Inl (SubprocessError (Fmt
         (''Could not restore '' @ [CHR 0x27] @ ''{}'' @ [CHR 0x27] @ '' to ''
            @ [CHR 0x27] @ ''{}'' @ [CHR 0x27] @ ''. Return code: {}'' @ [CHR 0x0A]
            @ '' stderr: '' @ [CHR 0x27] @ ''{}'' @ [CHR 0x27] @ [CHR 0x0A]
            @ '' stdout: '' @ [CHR 0x27] @ ''{}'' @ [CHR 0x27])
         [PStr example_backup,
          PStr ''mongo-cluster-last.mongo-cluster.default.svc.cluster.local'',
          PInt 1, PNone, PBytes ''preparing collections to restore from'']))"
  by (simp add: noisy_restore_world_def example_defs restore_defs restore_error_template_def
        quoted_def io_defs Let_def)

text \<open>
  C3. The claim: the downloaded file is removed after the executable has run, also
  when it exits with a non-zero code. The code does otherwise: \<^verbatim>\<open>os.remove\<close> is the last
  statement of \<^verbatim>\<open>restore\<close>, after the \<^verbatim>\<open>try\<close> statement and not in a \<^verbatim>\<open>finally\<close>
  clause, so the \<^verbatim>\<open>SubprocessError\<close> raised for a non-zero exit leaves \<^verbatim>\<open>restore\<close>
  before it. When the executable exits with code 1 the downloaded file is still
  there afterwards and no removal was attempted.
\<close>

theorem restore_leaves_file_when_executable_fails:
  "fst (restore example_lib example_cluster (Some example_backup) failing_restore_world) =
     Inl (SubprocessError (Fmt restore_error_template
       [PStr example_backup,
        PStr ''mongo-cluster-last.mongo-cluster.default.svc.cluster.local'',
        PInt 1, PNone, PBytes '''']))
   \<and> ''/tmp/'' @ example_backup
        \<in> files (snd (restore example_lib example_cluster (Some example_backup)
                         failing_restore_world))
   \<and> trace (snd (restore example_lib example_cluster (Some example_backup)
                    failing_restore_world)) =
      [ReadNamespacedSecret ''storage-serviceaccount'' ''default'',
       DownloadToFilename [(''private_key'', ''e30='')] ''mongo-backups''
         (''test-backups/'' @ example_backup) (''/tmp/'' @ example_backup),
       CheckOutput [''mongorestore'', ''--host'',
         ''mongo-cluster-last.mongo-cluster.default.svc.cluster.local'',
         ''--gzip'', ''--archive'', ''/tmp/'' @ example_backup]]"
  by (simp add: failing_restore_world_def example_defs restore_defs io_defs Let_def)

text \<open>
  C1. The claim: with restore source \<^verbatim>\<open>latest\<close> and an empty listing the lookup finds
  no artifact and \<^verbatim>\<open>restoreIfNeeded\<close> returns false without a download and without
  running the executable. The lookup does return \<^verbatim>\<open>None\<close>, and neither a download nor
  the executable is reached; but \<^verbatim>\<open>restoreIfNeeded\<close> does not test the result: it
  calls \<^verbatim>\<open>restore\<close> with \<^verbatim>\<open>None\<close>, which reads the credentials again and then raises
  \<^verbatim>\<open>TypeError\<close> at \<^verbatim>\<open>"/tmp/" + backup_file\<close>. It raises instead of returning false.
\<close>

theorem restoreIfNeeded_raises_on_empty_listing:
  "fst (getLastBackup example_lib example_cluster example_world) = Inr None
   \<and> fst (restoreIfNeeded example_lib example_cluster example_world) = Inl concat_None_error
   \<and> trace (snd (restoreIfNeeded example_lib example_cluster example_world)) =
      [ReadNamespacedSecret ''storage-serviceaccount'' ''default'',
       ListBlobs [(''private_key'', ''e30='')] ''mongo-backups'' ''test-backups/'',
       ReadNamespacedSecret ''storage-serviceaccount'' ''default'']"
  by (simp add: example_defs restoreIfNeeded_def getLastBackup_def lastBackupFile_def
        storage_list_blobs_def restore_defs io_defs Let_def)

end
